theory Spec2Isabelle
  imports Complex_Main
begin

section \<open>Data model\<close>

text \<open>
  JavaScript numbers are idealised as real numbers: every coordinate and every distance
  is a finite number, and arithmetic is exact. A coordinate is the two-element array
  \<open>[lat, lng]\<close> the components pass around.
\<close>

type_synonym coord = "real \<times> real"

text \<open>
  A route as the routing control of \<open>RouteTracker.jsx\<close> delivers it in the
  \<open>routesfound\<close> event: \<open>summary.totalDistance\<close>, \<open>summary.totalTime\<close> and
  \<open>coordinates\<close>.
\<close>

record lrm_route =
  totalDistance :: real
  totalTime :: real
  route_coordinates :: "coord list"

section \<open>Route selection in RouteTracker\<close>

text \<open>
  \<^verbatim>\<open>routes.reduce((minRoute, currentRoute) =>
     currentRoute.summary.totalDistance < minRoute.summary.totalDistance
       ? currentRoute : minRoute, routes[0])\<close>
  The reduction starts from \<open>routes[0]\<close> and visits every element from index 0 on.
\<close>

definition shorter :: "lrm_route \<Rightarrow> lrm_route \<Rightarrow> lrm_route" where
  "shorter minRoute currentRoute =
     (if totalDistance currentRoute < totalDistance minRoute then currentRoute else minRoute)"

definition shortestRoute :: "lrm_route list \<Rightarrow> lrm_route" where
  "shortestRoute routes = foldl shorter (routes ! 0) routes"


section \<open>Effects, collaborators and exceptions\<close>

text \<open>
  What \<open>onRoutesFound\<close> of the \<open>RoutingMachine\<close> component receives:
  \<open>{distance, duration, coordinates}\<close>, in metres, seconds and \<open>[lat, lng]\<close> pairs.
\<close>

record route_info =
  distance :: real
  duration :: real
  coordinates :: "coord list"

text \<open>
  Every visible effect of a resolution is an event of its trace: the request sent to the
  routing provider, a polyline added to the map (and stored in \<open>routeLineRef\<close>), a
  \<open>map.fitBounds\<close> call with its padding and maximum zoom, an invocation of
  \<open>onRoutesFound\<close>, a \<open>console.error\<close>, a rejected promise nobody awaits, and
  the removal of the previous route line.
\<close>

datatype js_error = FetchFailed | JsonFailed | TypeError | MapError | CallbackError

datatype event =
    Fetch coord coord
  | Polyline "coord list"
  | FitBounds "coord list" "nat \<times> nat" nat
  | RoutesFound route_info
  | ConsoleError string
  | UnhandledRejection js_error
  | RemoveLayer "coord list"

text \<open>
  A run is the trace so far and, when the code threw, the exception that is propagating.
\<close>

type_synonym run = "event list \<times> js_error option"

text \<open>
  The collaborators the component does not define: Leaflet's \<open>LatLng.distanceTo\<close>,
  the map (drawing a polyline, fitting bounds) and the optional \<open>onRoutesFound\<close> prop.
  A map operation or the callback may throw; \<open>False\<close> stands for a call that throws.
\<close>

record env =
  distanceTo :: "coord \<Rightarrow> coord \<Rightarrow> real"
  polyline_addTo :: "coord list \<Rightarrow> bool"
  fitBounds :: "coord list \<Rightarrow> nat \<times> nat \<Rightarrow> nat \<Rightarrow> bool"
  onRoutesFound :: "(route_info \<Rightarrow> bool) option"

definition seq :: "run \<Rightarrow> run \<Rightarrow> run" where
  "seq r k = (case snd r of None \<Rightarrow> (fst r @ fst k, snd k) | Some e \<Rightarrow> r)"

definition stmt :: "bool \<Rightarrow> event \<Rightarrow> js_error \<Rightarrow> run" where
  "stmt returns ev err = (if returns then ([ev], None) else ([], Some err))"

definition try_catch :: "run \<Rightarrow> (js_error \<Rightarrow> run) \<Rightarrow> run" where
  "try_catch body handler =
     (case snd body of None \<Rightarrow> body
      | Some e \<Rightarrow> (fst body @ fst (handler e), snd (handler e)))"

text \<open>
  Calling an \<open>async\<close> function without \<open>await\<close>: its body runs, and an exception
  leaving it rejects a promise that nobody observes; the caller continues normally.
\<close>

definition call_async :: "run \<Rightarrow> run" where
  "call_async r =
     (case snd r of None \<Rightarrow> r | Some e \<Rightarrow> (fst r @ [UnhandledRejection e], None))"

text \<open>\<^verbatim>\<open>if (onRoutesFound) { onRoutesFound({...}); }\<close>\<close>

definition call_onRoutesFound :: "env \<Rightarrow> route_info \<Rightarrow> run" where
  "call_onRoutesFound E info =
     (case onRoutesFound E of
        None \<Rightarrow> ([], None)
      | Some cb \<Rightarrow> ([RoutesFound info], if cb info then None else Some CallbackError))"

section \<open>RoutingMachine: the two fallback tiers\<close>

text \<open>
  \<open>createSimpleDirectRoute\<close>: the straight line between \<open>waypoints[0]\<close> and
  \<open>waypoints[1]\<close>, its \<open>distanceTo\<close> distance, the duration at 40 km/h, bounds fitted
  with padding \<open>[150, 150]\<close> and \<open>maxZoom: 1\<close>. The component only calls it with at
  least two waypoints; the second equation is never reached from the effect.
\<close>

fun createSimpleDirectRoute :: "env \<Rightarrow> coord list \<Rightarrow> run" where
  "createSimpleDirectRoute E (start # endp # rest) =
     seq (stmt (polyline_addTo E [start, endp]) (Polyline [start, endp]) MapError)
       (let distance_m = distanceTo E start endp;
            duration_s = distance_m / (40 * 1000 / 3600)
        in seq (stmt (fitBounds E [start, endp] (150, 150) 1)
                  (FitBounds [start, endp] (150, 150) 1) MapError)
             (call_onRoutesFound E
                \<lparr>distance = distance_m, duration = duration_s,
                 coordinates = [(fst start, snd start), (fst endp, snd endp)]\<rparr>))"
| "createSimpleDirectRoute E waypoints = ([], Some TypeError)"

text \<open>
  The \<open>wayPoints\<close> array of \<open>createFallbackRoute\<close>: start, two intermediate points
  at the factors \<open>0.33\<close> and \<open>0.66\<close>, end.
\<close>

definition fallback_wayPoints :: "coord \<Rightarrow> coord \<Rightarrow> coord list" where
  "fallback_wayPoints startPoint endPoint =
     [(fst startPoint, snd startPoint),
      (fst startPoint + (fst endPoint - fst startPoint) * 0.33,
       snd startPoint + (snd endPoint - snd startPoint) * 0.33),
      (fst startPoint + (fst endPoint - fst startPoint) * 0.66,
       snd startPoint + (snd endPoint - snd startPoint) * 0.66),
      (fst endPoint, snd endPoint)]"

text \<open>
  \<^verbatim>\<open>let totalDistance = 0;
  for (let i = 0; i < wayPoints.length - 1; i++) {
    totalDistance += point1.distanceTo(point2);   // wayPoints[i], wayPoints[i + 1]
  }\<close>
  The loop, from index \<open>i\<close> with the running total.
\<close>

function distance_loop :: "env \<Rightarrow> coord list \<Rightarrow> nat \<Rightarrow> real \<Rightarrow> real" where
  "distance_loop E wayPoints i totalDistance_m =
     (if i < length wayPoints - 1
      then distance_loop E wayPoints (i + 1)
             (totalDistance_m + distanceTo E (wayPoints ! i) (wayPoints ! (i + 1)))
      else totalDistance_m)"
  by pat_completeness auto
termination
  by (relation "measure (\<lambda>(E, wayPoints, i, totalDistance_m). length wayPoints - 1 - i)") auto

declare distance_loop.simps [simp del]

text \<open>
  \<open>createFallbackRoute\<close>: the four-point path, the summed distance, the duration at
  40 km/h, bounds fitted with padding \<open>[150, 150]\<close> and \<open>maxZoom: 13\<close>; whatever the
  \<open>try\<close> block throws is logged and answered with \<open>createSimpleDirectRoute\<close>.
\<close>

fun createFallbackRoute :: "env \<Rightarrow> coord list \<Rightarrow> run" where
  "createFallbackRoute E (startPoint # endPoint # rest) =
     try_catch
       (let wayPoints = fallback_wayPoints startPoint endPoint
        in seq (stmt (polyline_addTo E wayPoints) (Polyline wayPoints) MapError)
             (let totalDistance_m = distance_loop E wayPoints 0 0;
                  duration_s = totalDistance_m / (40 * 1000 / 3600)
              in seq (stmt (fitBounds E wayPoints (150, 150) 13)
                        (FitBounds wayPoints (150, 150) 13) MapError)
                   (call_onRoutesFound E
                      \<lparr>distance = totalDistance_m, duration = duration_s,
                       coordinates = wayPoints\<rparr>)))
       (\<lambda>error. seq ([ConsoleError ''Fallback route calculation error:''], None)
                  (createSimpleDirectRoute E (startPoint # endPoint # rest)))"
| "createFallbackRoute E waypoints =
     try_catch ([], Some TypeError)
       (\<lambda>error. seq ([ConsoleError ''Fallback route calculation error:''], None)
                  (createSimpleDirectRoute E waypoints))"

section \<open>RoutingMachine: the provider request\<close>

text \<open>
  One route of the provider's JSON answer: \<open>distance\<close>, \<open>duration\<close> and
  \<open>geometry.coordinates\<close>, a list of \<open>[lng, lat]\<close> pairs (\<open>None\<close> when the answer
  carries no geometry, so that reading it throws).
\<close>

record osrm_route =
  osrm_distance :: real
  osrm_duration :: real
  geometry :: "coord list option"

text \<open>
  What the request can come to: \<open>fetch\<close> rejects (network error), or a response arrives
  with some HTTP status and a body that is not JSON, is the JSON \<open>null\<close>, or is an object
  whose \<open>routes\<close> member is absent (\<open>None\<close>) or an array.
\<close>

datatype body = NotJson | JsonNull | JsonData "osrm_route list option"

datatype provider_outcome = FetchRejected | Responded nat body

type_synonym provider = "coord \<Rightarrow> coord \<Rightarrow> provider_outcome"

text \<open>
  The part of \<open>fetchRoute\<close> after \<open>await response.json()\<close> has delivered \<open>data\<close>.
\<close>

definition use_routes :: "env \<Rightarrow> coord list \<Rightarrow> osrm_route list option \<Rightarrow> run" where
  "use_routes E waypoints routes =
     (case routes of
        Some (route # others) \<Rightarrow>
          (case geometry route of
             None \<Rightarrow> ([], Some TypeError)
           | Some geo \<Rightarrow>
               (let coords = map (\<lambda>coord. (snd coord, fst coord)) geo
                in seq (stmt (polyline_addTo E coords) (Polyline coords) MapError)
                     (seq (stmt (fitBounds E coords (50, 50) 15)
                             (FitBounds coords (50, 50) 15) MapError)
                        (call_onRoutesFound E
                           \<lparr>distance = osrm_distance route, duration = osrm_duration route,
                            coordinates = coords\<rparr>))))
      | _ \<Rightarrow> call_async (createFallbackRoute E waypoints))"

fun fetchRoute :: "env \<Rightarrow> provider \<Rightarrow> coord list \<Rightarrow> run" where
  "fetchRoute E provider (startPoint # endPoint # rest) =
     try_catch
       (seq ([Fetch startPoint endPoint], None)
          (case provider startPoint endPoint of
             FetchRejected \<Rightarrow> ([], Some FetchFailed)
           | Responded status NotJson \<Rightarrow> ([], Some JsonFailed)
           | Responded status JsonNull \<Rightarrow> ([], Some TypeError)
           | Responded status (JsonData routes) \<Rightarrow>
               use_routes E (startPoint # endPoint # rest) routes))
       (\<lambda>error. seq ([ConsoleError ''Route calculation error:''], None)
                  (call_async (createFallbackRoute E (startPoint # endPoint # rest))))"
| "fetchRoute E provider waypoints =
     try_catch ([], Some TypeError)
       (\<lambda>error. seq ([ConsoleError ''Route calculation error:''], None)
                  (call_async (createFallbackRoute E waypoints)))"

declare createFallbackRoute.simps [simp del] createSimpleDirectRoute.simps [simp del]
  fetchRoute.simps [simp del]

text \<open>
  The effect of \<open>RoutingMachine\<close>: nothing at all without two waypoints
  (\<open>if (!waypoints || waypoints.length < 2) return;\<close>); otherwise the previous route
  line, if any, is removed and \<open>fetchRoute()\<close> is started. \<open>routingControlRef\<close> is never
  assigned in this component, so its removal never runs.
\<close>

definition RoutingMachine_effect ::
  "env \<Rightarrow> provider \<Rightarrow> coord list option \<Rightarrow> coord list option \<Rightarrow> run" where
  "RoutingMachine_effect E provider previous_line waypoints =
     (case waypoints of
        None \<Rightarrow> ([], None)
      | Some wps \<Rightarrow>
          if length wps < 2 then ([], None)
          else seq ((case previous_line of None \<Rightarrow> [] | Some line \<Rightarrow> [RemoveLayer line]), None)
                 (call_async (fetchRoute E provider wps)))"

section \<open>RouteTracker: the effect and the routesfound handler\<close>

text \<open>
  The payload \<open>RouteTracker\<close> hands to its \<open>onRoutesFound\<close>: the three fields above
  and the selected route object itself.
\<close>

record tracker_info = route_info +
  info_shortestRoute :: lrm_route

datatype tracker_event =
    RemoveControl "coord list"
  | RemoveRouteLine "coord list"
  | AddRoutingControl "coord list"
  | Highlight "coord list"
  | TrackerFitBounds "coord list" "nat \<times> nat" nat
  | TrackerRoutesFound tracker_info

record tracker_refs =
  routingControlRef :: "coord list option"
  routeLineRef :: "coord list option"

text \<open>
  The effect of \<open>RouteTracker\<close>: existing routes are cleared first, then the effect
  exits without two waypoints; otherwise a routing control is created for the waypoints
  (it queries the routing engine) and stored in \<open>routingControlRef\<close>.
\<close>

definition RouteTracker_effect ::
  "tracker_refs \<Rightarrow> coord list option \<Rightarrow> tracker_event list \<times> tracker_refs" where
  "RouteTracker_effect refs waypoints =
     (let cleared =
            (case routingControlRef refs of None \<Rightarrow> [] | Some c \<Rightarrow> [RemoveControl c])
          @ (case routeLineRef refs of None \<Rightarrow> [] | Some l \<Rightarrow> [RemoveRouteLine l])
      in case waypoints of
           None \<Rightarrow> (cleared, refs)
         | Some wps \<Rightarrow>
             if length wps < 2 then (cleared, refs)
             else (cleared @ [AddRoutingControl wps],
                   refs\<lparr>routingControlRef := Some wps\<rparr>))"

text \<open>
  The \<open>routesfound\<close> handler: nothing for an empty list; otherwise the shortest route
  is selected, drawn when \<open>highlightShortest\<close> is set, the map is fitted to it with
  padding \<open>[50, 50]\<close> and \<open>maxZoom: 15\<close>, and the callback, when there is one, receives
  the selection. The handler has no \<open>try\<close> block; the map calls are taken to return.
\<close>

definition routesfound ::
  "bool \<Rightarrow> bool \<Rightarrow> tracker_refs \<Rightarrow> lrm_route list \<Rightarrow> tracker_event list \<times> tracker_refs" where
  "routesfound highlightShortest has_callback refs routes =
     (if length routes = 0 then ([], refs)
      else
        (let sel = shortestRoute routes;
             drawn =
               (if highlightShortest
                then (case routeLineRef refs of None \<Rightarrow> [] | Some l \<Rightarrow> [RemoveRouteLine l])
                     @ [Highlight (route_coordinates sel)]
                else []);
             refs' =
               (if highlightShortest
                then refs\<lparr>routeLineRef := Some (route_coordinates sel)\<rparr> else refs)
         in (drawn
             @ [TrackerFitBounds (route_coordinates sel) (50, 50) 15]
             @ (if has_callback
                then [TrackerRoutesFound
                        \<lparr>distance = totalDistance sel, duration = totalTime sel,
                         coordinates = map (\<lambda>coord. (fst coord, snd coord)) (route_coordinates sel),
                         info_shortestRoute = sel\<rparr>]
                else []),
             refs')))"

section \<open>The displayed driving time\<close>

text \<open>
  \<open>Math.round\<close> rounds to the nearest integer, halves upwards; the page shows
  \<open>Math.round(routeInfo.duration / 60)\<close> minutes for whatever route was reported.
\<close>

definition Math_round :: "real \<Rightarrow> int" where
  "Math_round x = \<lfloor>x + 1 / 2\<rfloor>"

definition driving_minutes :: "route_info \<Rightarrow> int" where
  "driving_minutes routeInfo = Math_round (duration routeInfo / 60)"

section \<open>Projections of a trace\<close>

fun reported :: "event list \<Rightarrow> route_info list" where
  "reported [] = []"
| "reported (RoutesFound info # evs) = info # reported evs"
| "reported (ev # evs) = reported evs"

fun hints :: "event list \<Rightarrow> ((nat \<times> nat) \<times> nat) list" where
  "hints [] = []"
| "hints (FitBounds pts padding maxZoom # evs) = (padding, maxZoom) # hints evs"
| "hints (ev # evs) = hints evs"

fun requests :: "event list \<Rightarrow> (coord \<times> coord) list" where
  "requests [] = []"
| "requests (Fetch a b # evs) = (a, b) # requests evs"
| "requests (ev # evs) = requests evs"

fun rejections :: "event list \<Rightarrow> js_error list" where
  "rejections [] = []"
| "rejections (UnhandledRejection e # evs) = e # rejections evs"
| "rejections (ev # evs) = rejections evs"

fun is_removal :: "tracker_event \<Rightarrow> bool" where
  "is_removal (RemoveControl c) = True"
| "is_removal (RemoveRouteLine l) = True"
| "is_removal ev = False"

text \<open>
  A run that invoked the callback exactly once, threw nothing and left no rejected promise.
\<close>

definition settled :: "run \<Rightarrow> bool" where
  "settled r \<longleftrightarrow> length (reported (fst r)) = 1 \<and> snd r = None \<and> rejections (fst r) = []"

text \<open>
  The outcomes of the request that yield no usable route: the rejected fetch, a body that
  cannot be read as an object with a non-empty \<open>routes\<close> array, and a first route
  without geometry. The HTTP status does not matter: \<open>fetchRoute\<close> never reads it.
\<close>

fun no_route :: "provider_outcome \<Rightarrow> bool" where
  "no_route FetchRejected = True"
| "no_route (Responded status NotJson) = True"
| "no_route (Responded status JsonNull) = True"
| "no_route (Responded status (JsonData None)) = True"
| "no_route (Responded status (JsonData (Some []))) = True"
| "no_route (Responded status (JsonData (Some (route # others)))) = (geometry route = None)"

section \<open>Statements of the specification, for comparison\<close>

text \<open>
  The tie-break as the specification words it: minimum total distance, exact ties broken
  by minimum duration.
\<close>

definition tie_break_by_duration :: "lrm_route list \<Rightarrow> lrm_route \<Rightarrow> bool" where
  "tie_break_by_duration routes sel \<longleftrightarrow>
     sel \<in> set routes
     \<and> (\<forall>r \<in> set routes. totalDistance sel \<le> totalDistance r)
     \<and> (\<forall>r \<in> set routes. totalDistance r = totalDistance sel \<longrightarrow> totalTime sel \<le> totalTime r)"

text \<open>
  The four-point path as the specification words it: midpoints at 1/3 and 2/3 of the way.
\<close>

definition path_by_thirds :: "coord \<Rightarrow> coord \<Rightarrow> coord list" where
  "path_by_thirds a b =
     [a,
      (fst a + (fst b - fst a) * (1 / 3), snd a + (snd b - snd a) * (1 / 3)),
      (fst a + (fst b - fst a) * (2 / 3), snd a + (snd b - snd a) * (2 / 3)),
      b]"

section \<open>Sample inputs\<close>

text \<open>
  A collaborator set for concrete runs: the map and the callback always return, and the
  distance is the simplest metric there is (0 between equal points, 1000 metres
  otherwise).
\<close>

definition unit_distance :: "coord \<Rightarrow> coord \<Rightarrow> real" where
  "unit_distance a b = (if a = b then 0 else 1000)"

definition sample_env :: env where
  "sample_env =
     \<lparr>distanceTo = unit_distance, polyline_addTo = (\<lambda>pts. True),
      fitBounds = (\<lambda>pts padding maxZoom. True), onRoutesFound = Some (\<lambda>info. True)\<rparr>"



text \<open>A map that can draw two-point lines only.\<close>

definition line_only_env :: env where
  "line_only_env = sample_env\<lparr>polyline_addTo := (\<lambda>pts. length pts = 2)\<rparr>"

text \<open>
  A provider answer with one route, a provider that cannot be reached, and one that
  answers with status 500 and an error object.
\<close>

definition sample_route :: osrm_route where
  "sample_route = \<lparr>osrm_distance = 5200, osrm_duration = 610, geometry = Some [(0, 0), (6, 3)]\<rparr>"

definition sample_provider :: provider where
  "sample_provider a b = Responded 200 (JsonData (Some [sample_route]))"

definition offline_provider :: provider where
  "offline_provider a b = FetchRejected"

definition failing_provider :: provider where
  "failing_provider a b = Responded 500 (JsonData None)"

definition route_a :: lrm_route where
  "route_a = \<lparr>totalDistance = 1200, totalTime = 900, route_coordinates = [(0, 0), (1, 1)]\<rparr>"

definition route_b :: lrm_route where
  "route_b = \<lparr>totalDistance = 1000, totalTime = 800, route_coordinates = [(0, 0), (1, 0)]\<rparr>"

definition route_c :: lrm_route where
  "route_c = \<lparr>totalDistance = 1000, totalTime = 600, route_coordinates = [(0, 0), (0, 1)]\<rparr>"

section \<open>Properties of the selection\<close>

lemma first_min_index:
  assumes "routes \<noteq> []"
  shows "\<exists>i<length routes. foldl shorter (hd routes) routes = routes ! i
           \<and> (\<forall>j<length routes. totalDistance (routes ! i) \<le> totalDistance (routes ! j))
           \<and> (\<forall>j<i. totalDistance (routes ! i) < totalDistance (routes ! j))"
  using assms
proof (induction routes rule: rev_nonempty_induct)
  case (single x)
  show ?case by (simp add: shorter_def)
next
  case (snoc a rs)
  then obtain i where i: "i < length rs" "foldl shorter (hd rs) rs = rs ! i"
    "\<forall>j<length rs. totalDistance (rs ! i) \<le> totalDistance (rs ! j)"
    "\<forall>j<i. totalDistance (rs ! i) < totalDistance (rs ! j)" by blast
  have hd: "hd (rs @ [a]) = hd rs" using snoc.hyps by simp
  show ?case
  proof (cases "totalDistance a < totalDistance (rs ! i)")
    case True
    have "foldl shorter (hd (rs @ [a])) (rs @ [a]) = (rs @ [a]) ! length rs"
      using True i(2) hd by (simp add: shorter_def)
    moreover have "\<forall>j<length (rs @ [a]).
        totalDistance ((rs @ [a]) ! length rs) \<le> totalDistance ((rs @ [a]) ! j)"
      using True i(3) by (auto simp: nth_append less_Suc_eq)
    moreover have "\<forall>j<length rs.
        totalDistance ((rs @ [a]) ! length rs) < totalDistance ((rs @ [a]) ! j)"
      using True i(3) by (auto simp: nth_append)
    ultimately show ?thesis by (intro exI [of _ "length rs"]) simp
  next
    case False
    have "foldl shorter (hd (rs @ [a])) (rs @ [a]) = (rs @ [a]) ! i"
      using False i(1,2) hd by (simp add: shorter_def nth_append)
    moreover have "\<forall>j<length (rs @ [a]).
        totalDistance ((rs @ [a]) ! i) \<le> totalDistance ((rs @ [a]) ! j)"
      using False i(1,3) by (auto simp: nth_append less_Suc_eq)
    moreover have "\<forall>j<i. totalDistance ((rs @ [a]) ! i) < totalDistance ((rs @ [a]) ! j)"
      using i(1,4) by (auto simp: nth_append)
    ultimately show ?thesis using i(1) by (intro exI [of _ i]) simp
  qed
qed

lemma least_distance_is_Min:
  assumes "i < length routes"
    and "\<forall>j<length routes. totalDistance (routes ! i) \<le> totalDistance (routes ! j)"
  shows "totalDistance (routes ! i) = Min (totalDistance ` set routes)"
proof -
  have "Min (totalDistance ` set routes) = totalDistance (routes ! i)"
  proof (rule Min_eqI)
    show "finite (totalDistance ` set routes)" by simp
    show "totalDistance (routes ! i) \<in> totalDistance ` set routes"
      using assms(1) by simp
    fix y assume "y \<in> totalDistance ` set routes"
    then obtain j where "j < length routes" "y = totalDistance (routes ! j)"
      by (auto simp: in_set_conv_nth)
    then show "totalDistance (routes ! i) \<le> y" using assms(2) by simp
  qed
  then show ?thesis by simp
qed

lemma foldl_shorter_map:
  assumes "\<And>r. totalDistance (g r) = totalDistance r"
  shows "foldl shorter (g m) (map g rs) = g (foldl shorter m rs)"
  by (induction rs arbitrary: m) (simp_all add: shorter_def assms)

lemma routesfound_reports_selection:
  assumes "routes \<noteq> []"
  shows "last (fst (routesfound highlightShortest True refs routes)) =
           TrackerRoutesFound
             \<lparr>distance = totalDistance (shortestRoute routes),
              duration = totalTime (shortestRoute routes),
              coordinates = route_coordinates (shortestRoute routes),
              info_shortestRoute = shortestRoute routes\<rparr>"
  using assms by (simp add: routesfound_def Let_def)

text \<open>
  C1. For every non-empty list of candidate routes handed to the selection step of
  RouteTracker, the selected route is one of the candidates, its total distance is the
  minimum over all candidates, and every candidate listed before it is strictly longer:
  among candidates of minimum distance the earliest-listed one is selected.
\<close>

theorem shortestRoute_first_minimum:
  assumes "routes \<noteq> []"
  shows "\<exists>i<length routes. shortestRoute routes = routes ! i
           \<and> totalDistance (shortestRoute routes) = Min (totalDistance ` set routes)
           \<and> (\<forall>j<i. totalDistance (shortestRoute routes) < totalDistance (routes ! j))"
proof -
  have hd: "routes ! 0 = hd routes" using assms by (simp add: hd_conv_nth)
  from first_min_index [OF assms] obtain i where i: "i < length routes"
    "foldl shorter (hd routes) routes = routes ! i"
    "\<forall>j<length routes. totalDistance (routes ! i) \<le> totalDistance (routes ! j)"
    "\<forall>j<i. totalDistance (routes ! i) < totalDistance (routes ! j)" by blast
  have sel: "shortestRoute routes = routes ! i"
    using i(2) hd by (simp add: shortestRoute_def)
  have "totalDistance (shortestRoute routes) = Min (totalDistance ` set routes)"
    using least_distance_is_Min [OF i(1) i(3)] sel by simp
  with sel i(1) i(4) show ?thesis by auto
qed

theorem shortestRoute_first_minimum_witness:
  "[route_a, route_b, route_c] \<noteq> []
   \<and> shortestRoute [route_a, route_b, route_c] = route_b
   \<and> totalDistance route_b = totalDistance route_c
   \<and> (\<exists>i<length [route_a, route_b, route_c].
          shortestRoute [route_a, route_b, route_c] = [route_a, route_b, route_c] ! i
          \<and> totalDistance (shortestRoute [route_a, route_b, route_c])
              = Min (totalDistance ` set [route_a, route_b, route_c])
          \<and> (\<forall>j<i. totalDistance (shortestRoute [route_a, route_b, route_c])
                      < totalDistance ([route_a, route_b, route_c] ! j)))"
proof -
  have ne: "[route_a, route_b, route_c] \<noteq> []" by simp
  have "shortestRoute [route_a, route_b, route_c] = route_b"
    by (simp add: shortestRoute_def shorter_def route_a_def route_b_def route_c_def)
  moreover have "totalDistance route_b = totalDistance route_c"
    by (simp add: route_b_def route_c_def)
  ultimately show ?thesis
    using ne shortestRoute_first_minimum [OF ne] by blast
qed

text \<open>
  C8 (as the code has it). When one or more candidate routes are delivered, the selection
  of RouteTracker is the first route, in list order, whose total distance is the minimum:
  exact ties are broken by first-seen order alone. The duration plays no part: giving the
  candidates any other durations selects the same candidate.
\<close>

theorem shortestRoute_distance_then_order:
  assumes "routes \<noteq> []"
  shows "List.find (\<lambda>r. totalDistance r = Min (totalDistance ` set routes)) routes
           = Some (shortestRoute routes)
         \<and> shortestRoute (map (\<lambda>r. r\<lparr>totalTime := t r\<rparr>) routes)
           = (shortestRoute routes)\<lparr>totalTime := t (shortestRoute routes)\<rparr>"
proof -
  have hd: "routes ! 0 = hd routes" using assms by (simp add: hd_conv_nth)
  from first_min_index [OF assms] obtain i where i: "i < length routes"
    "foldl shorter (hd routes) routes = routes ! i"
    "\<forall>j<length routes. totalDistance (routes ! i) \<le> totalDistance (routes ! j)"
    "\<forall>j<i. totalDistance (routes ! i) < totalDistance (routes ! j)" by blast
  have sel: "shortestRoute routes = routes ! i"
    using i(2) hd by (simp add: shortestRoute_def)
  have m: "totalDistance (routes ! i) = Min (totalDistance ` set routes)"
    by (rule least_distance_is_Min [OF i(1) i(3)])
  have "\<forall>j<i. totalDistance (routes ! j) \<noteq> Min (totalDistance ` set routes)"
    using i(4) m by fastforce
  with i(1) m sel
  have first: "List.find (\<lambda>r. totalDistance r = Min (totalDistance ` set routes)) routes
           = Some (shortestRoute routes)"
    by (auto simp: find_Some_iff)
  let ?g = "\<lambda>r. r\<lparr>totalTime := t r\<rparr>"
  have "map ?g routes ! 0 = ?g (routes ! 0)" using assms by (simp add: nth_map)
  moreover have "foldl shorter (?g (routes ! 0)) (map ?g routes)
      = ?g (foldl shorter (routes ! 0) routes)"
    by (rule foldl_shorter_map) simp
  ultimately have "shortestRoute (map ?g routes) = ?g (shortestRoute routes)"
    by (simp add: shortestRoute_def)
  with first show ?thesis by simp
qed

theorem shortestRoute_distance_then_order_witness:
  "[route_a, route_b, route_c] \<noteq> []
   \<and> List.find (\<lambda>r. totalDistance r = Min (totalDistance ` set [route_a, route_b, route_c]))
        [route_a, route_b, route_c] = Some route_b
   \<and> shortestRoute (map (\<lambda>r. r\<lparr>totalTime := 0\<rparr>) [route_a, route_b, route_c])
        = route_b\<lparr>totalTime := 0\<rparr>"
proof -
  have ne: "[route_a, route_b, route_c] \<noteq> []" by simp
  have "shortestRoute [route_a, route_b, route_c] = route_b"
    by (simp add: shortestRoute_def shorter_def route_a_def route_b_def route_c_def)
  then show ?thesis
    using ne shortestRoute_distance_then_order [OF ne, of "\<lambda>r. 0"] by simp
qed

text \<open>
  The candidates B and C are equally long and C is the faster one; a tie-break by duration
  would select C, the code selects B, the one listed first.
\<close>

theorem tie_break_by_duration_counterexample:
  "\<not> tie_break_by_duration [route_a, route_b, route_c]
       (shortestRoute [route_a, route_b, route_c])"
  by (simp add: tie_break_by_duration_def shortestRoute_def shorter_def
        route_a_def route_b_def route_c_def)

section \<open>Properties of the fallback tiers\<close>

lemma distance_loop_sum:
  "distance_loop E wps i acc =
     acc + (\<Sum>k = i..<length wps - 1. distanceTo E (wps ! k) (wps ! (k + 1)))"
proof (induction E wps i acc rule: distance_loop.induct)
  case (1 E wayPoints i totalDistance_m)
  show ?case
  proof (cases "i < length wayPoints - 1")
    case True
    with "1" show ?thesis
      by (subst distance_loop.simps) (simp add: sum.atLeast_Suc_lessThan)
  next
    case False
    then show ?thesis by (subst distance_loop.simps) simp
  qed
qed

lemma distance_loop_four:
  assumes "length wps = 4"
  shows "distance_loop E wps 0 0 =
      distanceTo E (wps ! 0) (wps ! 1) + distanceTo E (wps ! 1) (wps ! 2)
    + distanceTo E (wps ! 2) (wps ! 3)"
  using assms by (simp add: distance_loop_sum eval_nat_numeral)

lemma createFallbackRoute_returns:
  assumes "polyline_addTo E (fallback_wayPoints s e)"
    and "fitBounds E (fallback_wayPoints s e) (150, 150) 13"
    and "onRoutesFound E = Some cb" and "\<forall>info. cb info"
  shows "createFallbackRoute E (s # e # rest) =
    ([Polyline (fallback_wayPoints s e), FitBounds (fallback_wayPoints s e) (150, 150) 13,
      RoutesFound \<lparr>distance = distance_loop E (fallback_wayPoints s e) 0 0,
         duration = distance_loop E (fallback_wayPoints s e) 0 0 / (40 * 1000 / 3600),
         coordinates = fallback_wayPoints s e\<rparr>], None)"
  using assms
  by (simp add: createFallbackRoute.simps try_catch_def seq_def stmt_def
        call_onRoutesFound_def Let_def)

lemma createSimpleDirectRoute_trace:
  assumes "polyline_addTo E [s, e]" and "fitBounds E [s, e] (150, 150) 1"
    and "onRoutesFound E = Some cb"
  shows "fst (createSimpleDirectRoute E (s # e # rest)) =
    [Polyline [s, e], FitBounds [s, e] (150, 150) 1,
     RoutesFound \<lparr>distance = distanceTo E s e,
        duration = distanceTo E s e / (40 * 1000 / 3600), coordinates = [s, e]\<rparr>]"
  using assms
  by (simp add: createSimpleDirectRoute.simps seq_def stmt_def call_onRoutesFound_def Let_def)

lemma sample_env_simps:
  "distanceTo sample_env = unit_distance"
  "polyline_addTo sample_env pts" "fitBounds sample_env pts padding maxZoom"
  "onRoutesFound sample_env = Some (\<lambda>info. True)"
  by (simp_all add: sample_env_def)

lemma sample_tier1_run:
  "createFallbackRoute sample_env [(0, 0), (3, 6)] =
    ([Polyline (fallback_wayPoints (0, 0) (3, 6)),
      FitBounds (fallback_wayPoints (0, 0) (3, 6)) (150, 150) 13,
      RoutesFound
        \<lparr>distance = distance_loop sample_env (fallback_wayPoints (0, 0) (3, 6)) 0 0,
         duration =
           distance_loop sample_env (fallback_wayPoints (0, 0) (3, 6)) 0 0 / (40 * 1000 / 3600),
         coordinates = fallback_wayPoints (0, 0) (3, 6)\<rparr>], None)"
  by (rule createFallbackRoute_returns [where cb = "\<lambda>info. True"])
     (simp_all add: sample_env_simps)

lemma sample_tier1_distance:
  "distance_loop sample_env (fallback_wayPoints (0, 0) (3, 6)) 0 0 = 3000"
  by (simp add: distance_loop_four fallback_wayPoints_def sample_env_simps unit_distance_def)

text \<open>
  C3 (as the code has it). For every origin and destination, when the map and the callback
  return normally, the first fallback reports exactly one route; its path has exactly 4
  points, the first is the origin, the last is the destination, and the two middle points
  are the linear interpolations at the factors 0.33 and 0.66 of the way from origin to
  destination.
\<close>

theorem createFallbackRoute_path:
  assumes "polyline_addTo E (fallback_wayPoints s e)"
    and "fitBounds E (fallback_wayPoints s e) (150, 150) 13"
    and "onRoutesFound E = Some cb" and "\<forall>info. cb info"
  shows "\<exists>info. reported (fst (createFallbackRoute E (s # e # rest))) = [info]
     \<and> length (coordinates info) = 4
     \<and> coordinates info ! 0 = s
     \<and> coordinates info ! 1
         = (fst s + (fst e - fst s) * 0.33, snd s + (snd e - snd s) * 0.33)
     \<and> coordinates info ! 2
         = (fst s + (fst e - fst s) * 0.66, snd s + (snd e - snd s) * 0.66)
     \<and> coordinates info ! 3 = e"
  using createFallbackRoute_returns [OF assms, of rest]
  by (simp add: fallback_wayPoints_def)

theorem createFallbackRoute_path_witness:
  "polyline_addTo sample_env (fallback_wayPoints (0, 0) (3, 6))
   \<and> fitBounds sample_env (fallback_wayPoints (0, 0) (3, 6)) (150, 150) 13
   \<and> onRoutesFound sample_env = Some (\<lambda>info. True)
   \<and> (\<exists>info. reported (fst (createFallbackRoute sample_env [(0, 0), (3, 6)])) = [info]
     \<and> length (coordinates info) = 4
     \<and> coordinates info ! 0 = (0, 0)
     \<and> coordinates info ! 1 = (0.99, 1.98)
     \<and> coordinates info ! 2 = (1.98, 3.96)
     \<and> coordinates info ! 3 = (3, 6))"
  using createFallbackRoute_path [of sample_env "(0, 0)" "(3, 6)" "\<lambda>info. True" "[]"]
  by (simp add: sample_env_simps)

text \<open>
  From (0, 0) to (3, 6) the second point of the reported path is (0.99, 1.98), not the
  point (1, 2) at one third of the way.
\<close>

theorem path_by_thirds_counterexample:
  "map coordinates (reported (fst (createFallbackRoute sample_env [(0, 0), (3, 6)])))
     \<noteq> [path_by_thirds (0, 0) (3, 6)]"
  by (simp add: sample_tier1_run fallback_wayPoints_def path_by_thirds_def)

text \<open>
  C4. For every origin and destination, when the map and the callback return normally,
  the distance the first fallback reports is the sum of the three distances between
  consecutive points of its 4-point path (the result of the summing loop), not one
  origin-to-destination distance.
\<close>

theorem createFallbackRoute_distance:
  assumes "polyline_addTo E (fallback_wayPoints s e)"
    and "fitBounds E (fallback_wayPoints s e) (150, 150) 13"
    and "onRoutesFound E = Some cb" and "\<forall>info. cb info"
  shows "\<exists>info. reported (fst (createFallbackRoute E (s # e # rest))) = [info]
     \<and> length (coordinates info) = 4
     \<and> distance info =
         distanceTo E (coordinates info ! 0) (coordinates info ! 1)
       + distanceTo E (coordinates info ! 1) (coordinates info ! 2)
       + distanceTo E (coordinates info ! 2) (coordinates info ! 3)"
proof -
  have len: "length (fallback_wayPoints s e) = 4"
    by (simp add: fallback_wayPoints_def)
  show ?thesis
    using createFallbackRoute_returns [OF assms, of rest] len distance_loop_four [OF len, of E]
    by simp
qed

text \<open>
  With the sample metric the three legs add up to 3000 while the direct distance is 1000.
\<close>

theorem createFallbackRoute_distance_witness:
  "polyline_addTo sample_env (fallback_wayPoints (0, 0) (3, 6))
   \<and> fitBounds sample_env (fallback_wayPoints (0, 0) (3, 6)) (150, 150) 13
   \<and> onRoutesFound sample_env = Some (\<lambda>info. True)
   \<and> (\<exists>info. reported (fst (createFallbackRoute sample_env [(0, 0), (3, 6)])) = [info]
     \<and> distance info = 3000 \<and> distanceTo sample_env (0, 0) (3, 6) = 1000)"
  using createFallbackRoute_distance [of sample_env "(0, 0)" "(3, 6)" "\<lambda>info. True" "[]"]
  by (simp add: sample_env_simps sample_tier1_run sample_tier1_distance unit_distance_def)

lemma reported_append [simp]: "reported (xs @ ys) = reported xs @ reported ys"
  by (induction xs rule: reported.induct) simp_all

lemma hints_append [simp]: "hints (xs @ ys) = hints xs @ hints ys"
  by (induction xs rule: hints.induct) simp_all

lemma requests_append [simp]: "requests (xs @ ys) = requests xs @ requests ys"
  by (induction xs rule: requests.induct) simp_all

lemma rejections_append [simp]: "rejections (xs @ ys) = rejections xs @ rejections ys"
  by (induction xs rule: rejections.induct) simp_all

lemma reported_createSimpleDirectRoute:
  assumes "info \<in> set (reported (fst (createSimpleDirectRoute E waypoints)))"
  shows "\<exists>s e rest. waypoints = s # e # rest
     \<and> info = \<lparr>distance = distanceTo E s e,
                duration = distanceTo E s e / (40 * 1000 / 3600), coordinates = [s, e]\<rparr>"
  using assms
  by (cases "(E, waypoints)" rule: createSimpleDirectRoute.cases)
     (auto simp: createSimpleDirectRoute.simps seq_def stmt_def call_onRoutesFound_def Let_def
        split: option.splits if_splits)

lemma reported_createFallbackRoute:
  assumes "info \<in> set (reported (fst (createFallbackRoute E waypoints)))"
  shows "\<exists>s e rest. waypoints = s # e # rest
     \<and> (info = \<lparr>distance = distanceTo E s e,
                duration = distanceTo E s e / (40 * 1000 / 3600), coordinates = [s, e]\<rparr>
       \<or> info = \<lparr>distance = distance_loop E (fallback_wayPoints s e) 0 0,
                duration = distance_loop E (fallback_wayPoints s e) 0 0 / (40 * 1000 / 3600),
                coordinates = fallback_wayPoints s e\<rparr>)"
proof (cases waypoints)
  case Nil
  with assms show ?thesis
    by (simp add: createFallbackRoute.simps createSimpleDirectRoute.simps try_catch_def seq_def)
next
  case outer: (Cons s t)
  show ?thesis
  proof (cases t)
    case Nil
    with outer assms show ?thesis
      by (simp add: createFallbackRoute.simps createSimpleDirectRoute.simps try_catch_def
            seq_def)
  next
    case (Cons e rest)
    with outer have w: "waypoints = s # e # rest" by simp
    from assms have "info \<in> set (reported (fst (createSimpleDirectRoute E waypoints)))
       \<or> info = \<lparr>distance = distance_loop E (fallback_wayPoints s e) 0 0,
                  duration = distance_loop E (fallback_wayPoints s e) 0 0 / (40 * 1000 / 3600),
                  coordinates = fallback_wayPoints s e\<rparr>"
      unfolding w
      by (auto simp: createFallbackRoute.simps try_catch_def seq_def stmt_def
            call_onRoutesFound_def Let_def split: option.splits if_splits)
    then show ?thesis
      using reported_createSimpleDirectRoute [of info E waypoints] w by auto
  qed
qed

text \<open>
  C5. Every route reported by a fallback tier, whichever tier produced it and whatever the
  map and the callback do, has a duration in seconds equal to its distance in metres
  divided by 40 km/h expressed in metres per second, 40 * 1000 / 3600; the tiers
  themselves do not round, and the minutes the page displays for it are that quotient
  divided by 60 and rounded by \<open>Math.round\<close>, as for every reported route.
\<close>

theorem fallback_duration_at_40_kmh:
  assumes "info \<in> set (reported (fst (createFallbackRoute E waypoints)))
         \<or> info \<in> set (reported (fst (createSimpleDirectRoute E waypoints)))"
  shows "duration info = distance info / (40 * 1000 / 3600)
       \<and> driving_minutes info = Math_round (distance info / (40 * 1000 / 3600) / 60)"
  using assms reported_createFallbackRoute [of info E waypoints]
    reported_createSimpleDirectRoute [of info E waypoints]
  by (auto simp: driving_minutes_def)


lemma sample_tier2_trace:
  "fst (createSimpleDirectRoute sample_env [(0, 0), (3, 6)]) =
    [Polyline [(0, 0), (3, 6)], FitBounds [(0, 0), (3, 6)] (150, 150) 1,
     RoutesFound \<lparr>distance = 1000, duration = 90, coordinates = [(0, 0), (3, 6)]\<rparr>]"
  using createSimpleDirectRoute_trace [of sample_env "(0, 0)" "(3, 6)" "\<lambda>info. True" "[]"]
  by (simp add: sample_env_simps unit_distance_def)

theorem fallback_duration_at_40_kmh_witness:
  "(\<lparr>distance = 3000, duration = 270, coordinates = fallback_wayPoints (0, 0) (3, 6)\<rparr>
      \<in> set (reported (fst (createFallbackRoute sample_env [(0, 0), (3, 6)])))
    \<and> (270 :: real) = 3000 / (40 * 1000 / 3600)
    \<and> driving_minutes
        \<lparr>distance = 3000, duration = 270, coordinates = fallback_wayPoints (0, 0) (3, 6)\<rparr> = 5)
   \<and> (\<lparr>distance = 1000, duration = 90, coordinates = [(0, 0), (3, 6)]\<rparr>
      \<in> set (reported (fst (createSimpleDirectRoute sample_env [(0, 0), (3, 6)])))
    \<and> (90 :: real) = 1000 / (40 * 1000 / 3600)
    \<and> driving_minutes \<lparr>distance = 1000, duration = 90, coordinates = [(0, 0), (3, 6)]\<rparr> = 2)"
  using fallback_duration_at_40_kmh
      [of "\<lparr>distance = 3000, duration = 270, coordinates = fallback_wayPoints (0, 0) (3, 6)\<rparr>"
          sample_env "[(0, 0), (3, 6)]"]
    fallback_duration_at_40_kmh
      [of "\<lparr>distance = 1000, duration = 90, coordinates = [(0, 0), (3, 6)]\<rparr>"
          sample_env "[(0, 0), (3, 6)]"]
  by (simp add: sample_tier1_run sample_tier1_distance sample_tier2_trace Math_round_def)

text \<open>
  C6. Whenever the straight-line fallback runs and the map draws and fits its line, it
  reports exactly one route whose path is [origin, destination] and whose distance is the
  direct \<open>distanceTo\<close> distance between the two; this is what the first fallback
  reports when its own four-point line cannot be drawn.
\<close>

theorem createSimpleDirectRoute_straight_line:
  assumes "polyline_addTo E [s, e]" and "fitBounds E [s, e] (150, 150) 1"
    and "onRoutesFound E = Some cb"
  shows "\<exists>info. reported (fst (createSimpleDirectRoute E (s # e # rest))) = [info]
     \<and> coordinates info = [s, e] \<and> distance info = distanceTo E s e
     \<and> (\<not> polyline_addTo E (fallback_wayPoints s e) \<longrightarrow>
          reported (fst (createFallbackRoute E (s # e # rest))) = [info])"
proof -
  have "\<not> polyline_addTo E (fallback_wayPoints s e) \<Longrightarrow>
      fst (createFallbackRoute E (s # e # rest)) =
        ConsoleError ''Fallback route calculation error:''
        # fst (createSimpleDirectRoute E (s # e # rest))"
    by (simp add: createFallbackRoute.simps try_catch_def seq_def stmt_def Let_def)
  then show ?thesis
    using createSimpleDirectRoute_trace [OF assms, of rest] by auto
qed

theorem createSimpleDirectRoute_straight_line_witness:
  "polyline_addTo line_only_env [(0, 0), (3, 6)]
   \<and> fitBounds line_only_env [(0, 0), (3, 6)] (150, 150) 1
   \<and> onRoutesFound line_only_env = Some (\<lambda>info. True)
   \<and> \<not> polyline_addTo line_only_env (fallback_wayPoints (0, 0) (3, 6))
   \<and> reported (fst (createSimpleDirectRoute line_only_env [(0, 0), (3, 6)]))
       = [\<lparr>distance = 1000, duration = 90, coordinates = [(0, 0), (3, 6)]\<rparr>]
   \<and> reported (fst (createFallbackRoute line_only_env [(0, 0), (3, 6)]))
       = [\<lparr>distance = 1000, duration = 90, coordinates = [(0, 0), (3, 6)]\<rparr>]"
proof -
  have h: "polyline_addTo line_only_env [(0, 0), (3, 6)]"
    "fitBounds line_only_env [(0, 0), (3, 6)] (150, 150) 1"
    "onRoutesFound line_only_env = Some (\<lambda>info. True)"
    by (simp_all add: line_only_env_def sample_env_def)
  have n: "\<not> polyline_addTo line_only_env (fallback_wayPoints (0, 0) (3, 6))"
    by (simp add: line_only_env_def fallback_wayPoints_def)
  have d: "distanceTo line_only_env (0, 0) (3, 6) = 1000"
    by (simp add: line_only_env_def sample_env_def unit_distance_def)
  have t: "fst (createSimpleDirectRoute line_only_env [(0, 0), (3, 6)]) =
    [Polyline [(0, 0), (3, 6)], FitBounds [(0, 0), (3, 6)] (150, 150) 1,
     RoutesFound \<lparr>distance = 1000, duration = 90, coordinates = [(0, 0), (3, 6)]\<rparr>]"
    using createSimpleDirectRoute_trace [OF h, of "[]"] d by simp
  show ?thesis
    using createSimpleDirectRoute_straight_line [OF h, of "[]"] h n t by simp
qed










lemma fetchRoute_provider_route:
  assumes "provider s e = Responded status (JsonData (Some (route # others)))"
    and "geometry route = Some geo"
    and "polyline_addTo E (map (\<lambda>coord. (snd coord, fst coord)) geo)"
    and "fitBounds E (map (\<lambda>coord. (snd coord, fst coord)) geo) (50, 50) 15"
    and "onRoutesFound E = Some cb" and "\<forall>info. cb info"
  shows "fetchRoute E provider (s # e # rest) =
     ([Fetch s e, Polyline (map (\<lambda>coord. (snd coord, fst coord)) geo),
       FitBounds (map (\<lambda>coord. (snd coord, fst coord)) geo) (50, 50) 15,
       RoutesFound \<lparr>distance = osrm_distance route, duration = osrm_duration route,
          coordinates = map (\<lambda>coord. (snd coord, fst coord)) geo\<rparr>], None)"
  using assms
  by (simp add: fetchRoute.simps use_routes_def try_catch_def seq_def stmt_def
        call_onRoutesFound_def Let_def)

text \<open>
  C7 (as the code has it). When the map and the callback return normally, the bounds are
  fitted once per resolved route with hints that depend on where the route came from: a
  provider route uses padding 50 and maximum zoom 15, the first fallback uses padding 150
  and maximum zoom 13, the straight-line fallback uses padding 150 and maximum zoom 1.
\<close>

theorem hints_by_tier:
  assumes "\<forall>pts. polyline_addTo E pts" and "\<forall>pts padding maxZoom. fitBounds E pts padding maxZoom"
    and "onRoutesFound E = Some cb" and "\<forall>info. cb info"
  shows "(provider s e = Responded status (JsonData (Some (route # others)))
            \<and> geometry route = Some geo
          \<longrightarrow> hints (fst (fetchRoute E provider (s # e # rest))) = [((50, 50), 15)])
       \<and> hints (fst (createFallbackRoute E (s # e # rest))) = [((150, 150), 13)]
       \<and> hints (fst (createSimpleDirectRoute E (s # e # rest))) = [((150, 150), 1)]"
  using assms fetchRoute_provider_route [of provider s e status route others geo E cb rest]
    createFallbackRoute_returns [of E s e cb rest]
    createSimpleDirectRoute_trace [of E s e cb rest]
  by auto


theorem hints_by_tier_witness:
  "(\<forall>pts. polyline_addTo sample_env pts)
   \<and> (\<forall>pts padding maxZoom. fitBounds sample_env pts padding maxZoom)
   \<and> onRoutesFound sample_env = Some (\<lambda>info. True)
   \<and> sample_provider (0, 0) (3, 6) = Responded 200 (JsonData (Some [sample_route]))
   \<and> geometry sample_route = Some [(0, 0), (6, 3)]
   \<and> hints (fst (fetchRoute sample_env sample_provider [(0, 0), (3, 6)])) = [((50, 50), 15)]
   \<and> hints (fst (createFallbackRoute sample_env [(0, 0), (3, 6)])) = [((150, 150), 13)]
   \<and> hints (fst (createSimpleDirectRoute sample_env [(0, 0), (3, 6)])) = [((150, 150), 1)]"
  using hints_by_tier [of sample_env "\<lambda>info. True" sample_provider "(0, 0)" "(3, 6)" 200
      sample_route "[]" "[(0, 0), (6, 3)]" "[]"]
  by (simp add: sample_env_simps sample_provider_def) (simp add: sample_route_def)

text \<open>
  The first fallback does not fit the bounds the way a provider route does.
\<close>

theorem tier1_hints_counterexample:
  "hints (fst (createFallbackRoute sample_env [(0, 0), (3, 6)])) \<noteq> [((50, 50), 15)]"
  by (simp add: sample_tier1_run)

lemma createFallbackRoute_settled:
  assumes "onRoutesFound E = Some cb" and "\<forall>info. cb info"
    and "polyline_addTo E [s, e]" and "fitBounds E [s, e] (150, 150) 1"
  shows "settled (createFallbackRoute E (s # e # rest))
       \<and> requests (fst (createFallbackRoute E (s # e # rest))) = []"
  using assms
  by (simp add: settled_def createFallbackRoute.simps createSimpleDirectRoute.simps
        try_catch_def seq_def stmt_def call_onRoutesFound_def Let_def)

lemma call_async_settled: "settled r \<Longrightarrow> call_async r = r"
  by (simp add: settled_def call_async_def)


lemma createFallbackRoute_chain:
  assumes "onRoutesFound E = Some cb" and "\<forall>info. cb info"
    and "polyline_addTo E [s, e]" and "fitBounds E [s, e] (150, 150) 1"
  shows "map coordinates (reported (fst (createFallbackRoute E (s # e # rest)))) =
       (if polyline_addTo E (fallback_wayPoints s e)
           \<and> fitBounds E (fallback_wayPoints s e) (150, 150) 13
        then [fallback_wayPoints s e] else [[s, e]])"
  using assms
  by (simp add: createFallbackRoute.simps createSimpleDirectRoute.simps
        try_catch_def seq_def stmt_def call_onRoutesFound_def Let_def)

text \<open>
  C2. For every pair of coordinates and every outcome of the provider request (rejected
  fetch, any HTTP status, a body that is not JSON, no candidates, candidates), when the
  callback returns normally and the map can draw and fit the straight line, a resolution
  sends one request, invokes the callback exactly once, throws nothing and leaves no
  rejected promise behind. When the provider yields no usable route, the route reported is
  the first fallback's four-point path if the map draws and fits it, and the straight line
  otherwise.
\<close>

theorem fetchRoute_reports_exactly_once:
  assumes "onRoutesFound E = Some cb" and "\<forall>info. cb info"
    and "polyline_addTo E [s, e]" and "fitBounds E [s, e] (150, 150) 1"
  shows "length (reported (fst (RoutingMachine_effect E provider previous_line (Some (s # e # rest))))) = 1
       \<and> snd (RoutingMachine_effect E provider previous_line (Some (s # e # rest))) = None
       \<and> rejections (fst (RoutingMachine_effect E provider previous_line (Some (s # e # rest)))) = []
       \<and> requests (fst (RoutingMachine_effect E provider previous_line (Some (s # e # rest)))) = [(s, e)]
       \<and> (no_route (provider s e) \<longrightarrow>
            map coordinates
              (reported (fst (RoutingMachine_effect E provider previous_line (Some (s # e # rest)))))
            = (if polyline_addTo E (fallback_wayPoints s e)
                  \<and> fitBounds E (fallback_wayPoints s e) (150, 150) 13
               then [fallback_wayPoints s e] else [[s, e]]))"
proof -
  let ?fb = "createFallbackRoute E (s # e # rest)"
  let ?fr = "fetchRoute E provider (s # e # rest)"
  note fb = createFallbackRoute_settled [OF assms, of rest]
  have a: "call_async ?fb = ?fb" using fb by (simp add: call_async_settled)
  have once: "settled ?fr \<and> requests (fst ?fr) = [(s, e)]"
    using fb assms(1,2)
    by (auto simp: fetchRoute.simps use_routes_def a settled_def try_catch_def seq_def stmt_def
          call_onRoutesFound_def Let_def
          split: provider_outcome.splits body.splits option.splits list.splits)
  have "reported (fst ?fr) = reported (fst ?fb)" if "no_route (provider s e)"
    using that fb
    by (cases "provider s e" rule: no_route.cases)
       (simp_all add: fetchRoute.simps use_routes_def a settled_def try_catch_def seq_def)
  then have chain: "no_route (provider s e) \<longrightarrow>
      map coordinates (reported (fst ?fr)) =
       (if polyline_addTo E (fallback_wayPoints s e)
           \<and> fitBounds E (fallback_wayPoints s e) (150, 150) 13
        then [fallback_wayPoints s e] else [[s, e]])"
    using createFallbackRoute_chain [OF assms, of rest] by simp
  have eff: "RoutingMachine_effect E provider previous_line (Some (s # e # rest)) =
      ((case previous_line of None \<Rightarrow> [] | Some line \<Rightarrow> [RemoveLayer line]) @ fst ?fr, None)"
    using once by (simp add: RoutingMachine_effect_def seq_def call_async_settled settled_def)
  have pre: "reported (case previous_line of None \<Rightarrow> [] | Some line \<Rightarrow> [RemoveLayer line]) = []"
    "rejections (case previous_line of None \<Rightarrow> [] | Some line \<Rightarrow> [RemoveLayer line]) = []"
    "requests (case previous_line of None \<Rightarrow> [] | Some line \<Rightarrow> [RemoveLayer line]) = []"
    by (simp_all split: option.splits)
  show ?thesis
    using once chain by (simp add: eff pre settled_def)
qed

theorem fetchRoute_reports_exactly_once_witness:
  "onRoutesFound sample_env = Some (\<lambda>info. True)
   \<and> polyline_addTo sample_env [(0, 0), (3, 6)]
   \<and> fitBounds sample_env [(0, 0), (3, 6)] (150, 150) 1
   \<and> no_route (failing_provider (0, 0) (3, 6))
   \<and> RoutingMachine_effect sample_env failing_provider None (Some [(0, 0), (3, 6)]) =
       ([Fetch (0, 0) (3, 6),
         Polyline (fallback_wayPoints (0, 0) (3, 6)),
         FitBounds (fallback_wayPoints (0, 0) (3, 6)) (150, 150) 13,
         RoutesFound \<lparr>distance = 3000, duration = 270,
            coordinates = fallback_wayPoints (0, 0) (3, 6)\<rparr>], None)
   \<and> no_route (offline_provider (0, 0) (3, 6))
   \<and> RoutingMachine_effect line_only_env offline_provider None (Some [(0, 0), (3, 6)]) =
       ([Fetch (0, 0) (3, 6), ConsoleError ''Route calculation error:'',
         ConsoleError ''Fallback route calculation error:'',
         Polyline [(0, 0), (3, 6)], FitBounds [(0, 0), (3, 6)] (150, 150) 1,
         RoutesFound \<lparr>distance = 1000, duration = 90, coordinates = [(0, 0), (3, 6)]\<rparr>], None)"
proof -
  have run1: "RoutingMachine_effect sample_env failing_provider None (Some [(0, 0), (3, 6)]) =
     ([Fetch (0, 0) (3, 6),
       Polyline (fallback_wayPoints (0, 0) (3, 6)),
       FitBounds (fallback_wayPoints (0, 0) (3, 6)) (150, 150) 13,
       RoutesFound \<lparr>distance = 3000, duration = 270,
          coordinates = fallback_wayPoints (0, 0) (3, 6)\<rparr>], None)"
    by (simp add: RoutingMachine_effect_def fetchRoute.simps failing_provider_def use_routes_def
          sample_tier1_run sample_tier1_distance call_async_def try_catch_def seq_def)
  have n: "\<not> polyline_addTo line_only_env (fallback_wayPoints (0, 0) (3, 6))"
    by (simp add: line_only_env_def fallback_wayPoints_def)
  have h: "onRoutesFound line_only_env = Some (\<lambda>info. True)"
    "polyline_addTo line_only_env [(0, 0), (3, 6)]"
    "fitBounds line_only_env [(0, 0), (3, 6)] (150, 150) 1"
    "distanceTo line_only_env (0, 0) (3, 6) = 1000"
    by (simp_all add: line_only_env_def sample_env_def unit_distance_def)
  have run2: "RoutingMachine_effect line_only_env offline_provider None (Some [(0, 0), (3, 6)]) =
     ([Fetch (0, 0) (3, 6), ConsoleError ''Route calculation error:'',
       ConsoleError ''Fallback route calculation error:'',
       Polyline [(0, 0), (3, 6)], FitBounds [(0, 0), (3, 6)] (150, 150) 1,
       RoutesFound \<lparr>distance = 1000, duration = 90, coordinates = [(0, 0), (3, 6)]\<rparr>], None)"
    using n h
    by (simp add: RoutingMachine_effect_def fetchRoute.simps offline_provider_def
          createFallbackRoute.simps createSimpleDirectRoute.simps stmt_def
          call_onRoutesFound_def call_async_def try_catch_def seq_def Let_def)
  show ?thesis
    using fetchRoute_reports_exactly_once
      [of sample_env "\<lambda>info. True" "(0, 0)" "(3, 6)" failing_provider None "[]"]
      fetchRoute_reports_exactly_once
      [of line_only_env "\<lambda>info. True" "(0, 0)" "(3, 6)" offline_provider None "[]"]
    by (simp add: run1 run2 sample_env_simps failing_provider_def offline_provider_def)
qed

text \<open>
  C9. For every waypoint list that is missing or has fewer than two points, no route is
  resolved: the effect of RoutingMachine does nothing at all (no request, no fallback, no
  callback), and the effect of RouteTracker only removes what it had drawn before; it
  creates no routing control, so no routes are requested and its handler, which is the
  only caller of the callback, is never installed.
\<close>

theorem no_resolution_without_two_waypoints:
  assumes "waypoints = None \<or> (\<exists>wps. waypoints = Some wps \<and> length wps < 2)"
  shows "RoutingMachine_effect E provider previous_line waypoints = ([], None)
       \<and> (\<forall>ev \<in> set (fst (RouteTracker_effect refs waypoints)). is_removal ev)
       \<and> snd (RouteTracker_effect refs waypoints) = refs"
  using assms
  by (auto simp: RoutingMachine_effect_def RouteTracker_effect_def Let_def
        split: option.splits)

theorem no_resolution_without_two_waypoints_witness:
  "length [(1, 2) :: coord] < 2
   \<and> RoutingMachine_effect sample_env sample_provider (Some [(0, 0), (1, 1)]) (Some [(1, 2)])
       = ([], None)
   \<and> RoutingMachine_effect sample_env sample_provider (Some [(0, 0), (1, 1)]) None = ([], None)
   \<and> fst (RouteTracker_effect
        \<lparr>routingControlRef = Some [(0, 0), (1, 1)], routeLineRef = Some [(0, 0), (1, 1)]\<rparr>
        (Some [(1, 2)]))
       = [RemoveControl [(0, 0), (1, 1)], RemoveRouteLine [(0, 0), (1, 1)]]"
  using no_resolution_without_two_waypoints [of "Some [(1, 2)]" sample_env sample_provider
      "Some [(0, 0), (1, 1)]"
      "\<lparr>routingControlRef = Some [(0, 0), (1, 1)], routeLineRef = Some [(0, 0), (1, 1)]\<rparr>"]
    no_resolution_without_two_waypoints [of None sample_env sample_provider
      "Some [(0, 0), (1, 1)]"
      "\<lparr>routingControlRef = Some [(0, 0), (1, 1)], routeLineRef = Some [(0, 0), (1, 1)]\<rparr>"]
  by (simp add: RouteTracker_effect_def)

end
